theory Spec2Isabelle
  imports Main
begin

section \<open>JavaScript values and promises\<close>

text \<open>
  The two sides of the bridge exchange JavaScript values. A promise (or any other
  thenable) is represented by what it eventually does: it calls back with a value, it
  calls back with a rejection reason, or it never calls back at all.
\<close>

datatype 'a outcome = Fulfilled 'a | Rejected 'a | Pending

text \<open>
  \<open>Num\<close> covers the integral numbers, \<open>NaN\<close> stands for itself. \<open>Obj\<close> is a plain data
  object given by its own properties in order; \<open>Arr\<close> is an array. \<open>Func\<close> is an opaque
  function value (it is only ever tested for truthiness here). \<open>Thenable\<close> is a promise
  or another object with a callable \<open>then\<close>. \<open>HTMLImageElement\<close> is the web view's image
  element with its \<open>src\<close>. \<open>ImageSource\<close> is the native image resource (its pixel data as
  an opaque text), \<open>Image\<close> the native image view with the value of its \<open>imageSource\<close>
  property. \<open>HTMLCanvas\<close> is a reference to a canvas element of the web view's document
  and \<open>Context2D\<close> the 2-D rendering context of that element. \<open>Window\<close> is the global
  object of the web view. \<open>TypeError\<close> is the error object the runtime throws on a bad
  property access or call. A \<open>string\<close> holds the UTF-8 bytes of a JavaScript string.
\<close>

datatype jsval =
    Undefined
  | Null
  | Bool bool
  | Num int
  | NaN
  | Str string
  | Obj "(string \<times> jsval) list"
  | Arr "jsval list"
  | Func string
  | Thenable "jsval outcome"
  | HTMLImageElement string
  | ImageSource string
  | Image jsval
  | HTMLCanvas nat
  | Context2D nat
  | Window
  | TypeError

text \<open>JavaScript's ToBoolean: what \<open>if (v)\<close>, \<open>!v\<close> and \<open>v || w\<close> test.\<close>

fun truthy :: "jsval \<Rightarrow> bool" where
  "truthy Undefined = False"
| "truthy Null = False"
| "truthy (Bool b) = b"
| "truthy (Num n) = (n \<noteq> 0)"
| "truthy NaN = False"
| "truthy (Str s) = (s \<noteq> [])"
| "truthy (Obj fs) = True"
| "truthy (Arr xs) = True"
| "truthy (Func f) = True"
| "truthy (Thenable p) = True"
| "truthy (HTMLImageElement s) = True"
| "truthy (ImageSource d) = True"
| "truthy (Image s) = True"
| "truthy (HTMLCanvas c) = True"
| "truthy (Context2D c) = True"
| "truthy Window = True"
| "truthy TypeError = True"

text \<open>\<open>a || b\<close>\<close>

definition js_or :: "jsval \<Rightarrow> jsval \<Rightarrow> jsval" where
  "js_or a b = (if truthy a then a else b)"

text \<open>
  Property read \<open>v.name\<close>, for the names the plugin reads (\<open>then\<close>, \<open>_strImage\<close>, \<open>data\<close>,
  \<open>imageSource\<close>). Reading a property of \<open>undefined\<close> or \<open>null\<close> throws a TypeError
  (\<open>Inl\<close>); a property that is not there reads as \<open>undefined\<close>.
\<close>

fun get_prop :: "jsval \<Rightarrow> string \<Rightarrow> jsval + jsval" where
  "get_prop Undefined name = Inl TypeError"
| "get_prop Null name = Inl TypeError"
| "get_prop (Obj fs) name = (case map_of fs name of Some v \<Rightarrow> Inr v | None \<Rightarrow> Inr Undefined)"
| "get_prop (Thenable p) name = (if name = ''then'' then Inr (Func ''then'') else Inr Undefined)"
| "get_prop (Image s) name = (if name = ''imageSource'' then Inr s else Inr Undefined)"
| "get_prop v name = Inr Undefined"

text \<open>
  The promise resolution procedure: what a promise settles to once \<open>resolve(v)\<close> has
  been called on it. A thenable is followed, to any depth; everything else fulfils the
  promise as it is.
\<close>

fun resolution :: "jsval \<Rightarrow> jsval outcome" where
  "resolution (Thenable (Fulfilled v)) = resolution v"
| "resolution (Thenable (Rejected e)) = Rejected e"
| "resolution (Thenable Pending) = Pending"
| "resolution v = Fulfilled v"

text \<open>\<open>Promise.resolve(v)\<close>, and \<open>Promise.resolve()\<close> as \<open>Promise_resolve Undefined\<close>.\<close>

definition Promise_resolve :: "jsval \<Rightarrow> jsval" where
  "Promise_resolve v = Thenable (resolution v)"

text \<open>\<open>xs.concat(a)\<close>: an array argument is spliced in, any other value is appended.\<close>

fun js_concat :: "jsval list \<Rightarrow> jsval \<Rightarrow> jsval list" where
  "js_concat xs (Arr ys) = xs @ ys"
| "js_concat xs a = xs @ [a]"

section \<open>The web-view side: \<open>www/nativescript-canvas-interface.ts\<close>\<close>

text \<open>
  Objects live in a store and are named by references, since the instance table, the
  page's script and the handlers share them. Every reference denotes an object: a
  canvas element has its \<open>id\<close> attribute and its current bitmap (an opaque text).
\<close>

type_synonym ref = nat

record HTMLCanvasElement =
  elem_id :: string
  bitmap :: string

type_synonym document = "ref \<Rightarrow> HTMLCanvasElement"

text \<open>
  A call of a handler either returns a value or throws one. A handler is applied to its
  argument list (the canvas, its context, then the request's arguments) and may draw on
  the canvases of the document.
\<close>

datatype completion = Returns jsval | Throws jsval

type_synonym canvasReqHandler = "jsval list \<Rightarrow> document \<Rightarrow> completion \<times> document"

text \<open>
  Both tables of the web-view side are object literals (\<open>{}\<close>) that the code reads with
  \<open>table[name]\<close>. Such a read finds the table's own property of that name, or else a
  member that the table inherits, or nothing (\<open>undefined\<close>). The members of
  \<open>Object.prototype\<close>, which every object literal inherits, have these names; all of
  them are functions but \<open>__proto__\<close>, which reads as the prototype object itself.
\<close>

datatype 'a lookup = Own 'a | Inherited | Missing

definition Object_prototype :: "string list" where
  "Object_prototype =
     [''constructor'', ''__defineGetter__'', ''__defineSetter__'', ''hasOwnProperty'',
      ''__lookupGetter__'', ''__lookupSetter__'', ''isPrototypeOf'', ''propertyIsEnumerable'',
      ''toString'', ''valueOf'', ''__proto__'', ''toLocaleString'']"

text \<open>\<open>table[name]\<close> on an object literal with the own properties \<open>table\<close>.\<close>

definition js_get :: "(string \<rightharpoonup> 'a) \<Rightarrow> string \<Rightarrow> 'a lookup" where
  "js_get table name =
     (case table name of
        Some v \<Rightarrow> Own v
      | None \<Rightarrow> (if name \<in> set Object_prototype then Inherited else Missing))"

text \<open>
  The class \<open>NSCanvasInterface\<close>: its two instance fields. \<open>canvasReqHandlers\<close> holds the
  own properties of the handler table, an object literal.
\<close>

record NSCanvasInterface =
  canvas :: ref
  canvasReqHandlers :: "string \<rightharpoonup> canvasReqHandler"

text \<open>
  The state of the web view: the canvas elements, the \<open>NSCanvasInterface\<close> objects, the
  static table \<open>_canvasInterfaceInstanceMap\<close>, and the next unused object reference.
  \<open>invoked\<close> is a log, kept for the statements below only: each call of a handler
  (or of an inherited function that the code takes for one) with the instance it was
  taken from, the name it was found under and its argument list. \<open>canvasInterfaceInstanceMap\<close> holds what has been assigned to the
  table, key by key. \<open>builtin name argv\<close> is what the function that \<open>Object.prototype\<close>
  has under \<open>name\<close> does when it is applied, as a handler is, to the argument list
  \<open>argv\<close>.
\<close>

record webview =
  elements :: document
  objects :: "ref \<Rightarrow> NSCanvasInterface"
  canvasInterfaceInstanceMap :: "string \<rightharpoonup> ref"
  fresh :: ref
  invoked :: "(ref \<times> string \<times> jsval list) list"
  builtin :: "string \<Rightarrow> jsval list \<Rightarrow> completion"

text \<open>
  What a call that returns a promise leaves behind: how the promise settles, the
  rejections and exceptions that nothing handles (a promise derived by \<open>then\<close> that
  rejects with no handler, or a throw inside a callback), and the state afterwards.
\<close>

record 's run =
  promise :: "jsval outcome"
  unhandled :: "jsval list"
  final :: 's

text \<open>
  \<open>new NSCanvasInterface(canvas)\<close>: returns the new object's reference. The assignment
  \<open>table[canvas.id] = this\<close> makes an own property for every id but \<open>__proto__\<close>, for
  which it replaces the table's prototype by the instance; as a read of \<open>__proto__\<close>
  gives the prototype, the instance is read back under that key all the same, and is
  kept under it here.
\<close>

definition NSCanvasInterface_constructor :: "ref \<Rightarrow> webview \<Rightarrow> ref \<times> webview" where
  "NSCanvasInterface_constructor cv w =
     (let this = fresh w in
      (this,
       w\<lparr>objects := (objects w)(this := \<lparr>canvas = cv, canvasReqHandlers = Map.empty\<rparr>),
         canvasInterfaceInstanceMap :=
           (canvasInterfaceInstanceMap w)(elem_id (elements w cv) \<mapsto> this),
         fresh := Suc this\<rparr>))"

text \<open>The page's assignment \<open>o.canvasReqHandlers = handlers\<close>.\<close>

definition assign_canvasReqHandlers ::
  "ref \<Rightarrow> (string \<rightharpoonup> canvasReqHandler) \<Rightarrow> webview \<Rightarrow> webview" where
  "assign_canvasReqHandlers this handlers w =
     w\<lparr>objects := (objects w)(this := (objects w this)\<lparr>canvasReqHandlers := handlers\<rparr>)\<rparr>"

text \<open>
  \<open>_getCanvasInstanceById\<close>: the read \<open>_canvasInterfaceInstanceMap[canvasId]\<close>. The table
  inherits the members of \<open>Object.prototype\<close> and, once an instance has become its
  prototype (an entry under \<open>__proto__\<close>), the two fields of that instance as well.
\<close>

definition NSCanvasInterface_getCanvasInstanceById :: "webview \<Rightarrow> string \<Rightarrow> ref lookup" where
  "NSCanvasInterface_getCanvasInstanceById w canvasId =
     (case canvasInterfaceInstanceMap w canvasId of
        Some oNSCanvasInterface \<Rightarrow> Own oNSCanvasInterface
      | None \<Rightarrow>
          (if canvasId \<in> set Object_prototype
              \<or> (canvasId \<in> set [''canvas'', ''canvasReqHandlers'']
                  \<and> canvasInterfaceInstanceMap w ''__proto__'' \<noteq> None)
           then Inherited
           else Missing))"

text \<open>
  The body of the promise executor in \<open>_callCanvasReqHandler\<close>, after the handler has
  been applied: a throw inside an executor rejects the promise; otherwise the returned
  value is wrapped as the source does and handed to \<open>resolve\<close>.
\<close>

definition settle_retnValue :: "completion \<Rightarrow> jsval outcome" where
  "settle_retnValue c =
     (case c of
        Throws e \<Rightarrow> Rejected e
      | Returns retnValue \<Rightarrow>
          (if \<not> truthy retnValue then resolution (Promise_resolve Undefined)
           else (case get_prop retnValue ''then'' of
                   Inl e \<Rightarrow> Rejected e
                 | Inr t \<Rightarrow>
                     (if \<not> truthy t then resolution (Promise_resolve retnValue)
                      else resolution retnValue))))"

text \<open>
  \<open>_callCanvasReqHandler\<close>: \<open>Inl\<close> is a value thrown to the caller, \<open>Inr\<close> the promise it
  returns. An inherited member found in the instance table is truthy and passes the
  test \<open>!oNSCanvasInterface\<close>; it has no \<open>canvasReqHandlers\<close>, and reading
  \<open>[functionName]\<close> of \<open>undefined\<close> throws a TypeError. (One case is taken as a TypeError
  though the code goes on: the id \<open>canvasReqHandlers\<close>, read from a table whose prototype
  is an instance that has a handler of that very name; what happens then depends on
  the properties of that function, and no handler is called.) An inherited member
  found in the handler table is truthy and is applied like a handler; \<open>__proto__\<close> is no
  function, so that applying it throws a TypeError, inside the promise executor.
\<close>

definition NSCanvasInterface_callCanvasReqHandler ::
  "webview \<Rightarrow> string \<Rightarrow> string \<Rightarrow> jsval \<Rightarrow> (jsval + jsval outcome) \<times> webview" where
  "NSCanvasInterface_callCanvasReqHandler w canvasId functionName args =
     (case NSCanvasInterface_getCanvasInstanceById w canvasId of
        Missing \<Rightarrow>
          (Inl (Str (''No canvas interface instance found for canvas '' @ canvasId)), w)
      | Inherited \<Rightarrow> (Inl TypeError, w)
      | Own oNSCanvasInterface \<Rightarrow>
          (case js_get (canvasReqHandlers (objects w oNSCanvasInterface)) functionName of
             Missing \<Rightarrow>
               (Inl (Str (''Function '' @ functionName @ '' is not registered with canvas ''
                          @ canvasId)), w)
           | Inherited \<Rightarrow>
               (if functionName = ''__proto__'' then (Inr (Rejected TypeError), w)
                else
                  (let cv = canvas (objects w oNSCanvasInterface);
                       argv = js_concat [HTMLCanvas cv, Context2D cv] args
                   in (Inr (settle_retnValue (builtin w functionName argv)),
                       w\<lparr>invoked := invoked w @ [(oNSCanvasInterface, functionName, argv)]\<rparr>)))
           | Own canvasReqHandler \<Rightarrow>
               (let cv = canvas (objects w oNSCanvasInterface);
                    argv = js_concat [HTMLCanvas cv, Context2D cv] args;
                    (c, doc) = canvasReqHandler argv (elements w)
                in (Inr (settle_retnValue c),
                    w\<lparr>elements := doc,
                      invoked := invoked w @ [(oNSCanvasInterface, functionName, argv)]\<rparr>))))"

text \<open>
  \<open>_setImage\<close>. \<open>loads src\<close> tells whether the browser fires \<open>onload\<close> for an image with
  that \<open>src\<close>; \<open>w\<close> is the state in which the event is delivered. No other callback is
  set on the image. The promise that \<open>_callCanvasReqHandler\<close> returns is an object, so
  the test \<open>!retnPromise\<close> never holds; its \<open>then\<close> is given a fulfilment callback only.
\<close>

definition NSCanvasInterface_setImage ::
  "(string \<Rightarrow> bool) \<Rightarrow> webview \<Rightarrow> string \<Rightarrow> string \<Rightarrow> string \<Rightarrow> jsval \<Rightarrow> webview run" where
  "NSCanvasInterface_setImage loads w canvasId functionName base64IamgeStr args =
     (if \<not> loads base64IamgeStr then \<lparr>promise = Pending, unhandled = [], final = w\<rparr>
      else
        (case NSCanvasInterface_callCanvasReqHandler w canvasId functionName
                (Arr (js_concat [HTMLImageElement base64IamgeStr] args)) of
           (Inl e, w') \<Rightarrow> \<lparr>promise = Rejected e, unhandled = [], final = w'\<rparr>
         | (Inr retnPromise, w') \<Rightarrow>
             (case retnPromise of
                Fulfilled retnValue \<Rightarrow>
                  \<lparr>promise = resolution retnValue, unhandled = [], final = w'\<rparr>
              | Rejected e \<Rightarrow> \<lparr>promise = Pending, unhandled = [e], final = w'\<rparr>
              | Pending \<Rightarrow> \<lparr>promise = Pending, unhandled = [], final = w'\<rparr>)))"

text \<open>
  \<open>_createImage\<close>. \<open>toDataURL\<close> is the canvas element's export. The callback given to
  \<open>then\<close> runs in a later turn of the event loop: \<open>later\<close> is what the rest of the page
  does to the state between the handler's call and that turn. In the callback,
  \<open>oNSCanvasInterface.canvas.toDataURL\<close> throws a TypeError when the table has no entry
  any more, and also when the read finds an inherited member (which has no canvas).
\<close>

definition NSCanvasInterface_createImage ::
  "(HTMLCanvasElement \<Rightarrow> string \<Rightarrow> string) \<Rightarrow> (webview \<Rightarrow> webview) \<Rightarrow> webview \<Rightarrow>
   string \<Rightarrow> string \<Rightarrow> string \<Rightarrow> jsval \<Rightarrow> webview run" where
  "NSCanvasInterface_createImage toDataURL later w canvasId functionName imgFormat args =
     (case NSCanvasInterface_callCanvasReqHandler w canvasId functionName args of
        (Inl e, w') \<Rightarrow> \<lparr>promise = Rejected e, unhandled = [], final = w'\<rparr>
      | (Inr retnPromise, w') \<Rightarrow>
          (case retnPromise of
             Fulfilled data \<Rightarrow>
               (let w'' = later w' in
                (case NSCanvasInterface_getCanvasInstanceById w'' canvasId of
                   Missing \<Rightarrow> \<lparr>promise = Pending, unhandled = [TypeError], final = w''\<rparr>
                 | Inherited \<Rightarrow> \<lparr>promise = Pending, unhandled = [TypeError], final = w''\<rparr>
                 | Own oNSCanvasInterface \<Rightarrow>
                     (let strImage =
                            toDataURL (elements w'' (canvas (objects w'' oNSCanvasInterface)))
                              (if imgFormat = ''png'' then ''image/png'' else ''image/jpeg'')
                      in \<lparr>promise = resolution (Obj [(''_strImage'', Str strImage), (''data'', data)]),
                          unhandled = [], final = w''\<rparr>)))
           | Rejected e \<Rightarrow> \<lparr>promise = Pending, unhandled = [e], final = w'\<rparr>
           | Pending \<Rightarrow> \<lparr>promise = Pending, unhandled = [], final = w'\<rparr>))"

section \<open>The native side: \<open>NativescriptCanvasInterface\<close>\<close>

subsection \<open>String methods\<close>

text \<open>
  \<open>s.split(c)\<close> for a one-character separator: the pieces between the separators, all
  of them (an empty string gives one empty piece). \<open>cur\<close> is the piece being read,
  reversed.
\<close>

fun split_from :: "char \<Rightarrow> string \<Rightarrow> string \<Rightarrow> string list" where
  "split_from c cur [] = [rev cur]"
| "split_from c cur (x # xs) =
     (if x = c then rev cur # split_from c [] xs else split_from c (x # cur) xs)"

definition split :: "string \<Rightarrow> char \<Rightarrow> string list" where
  "split s c = split_from c [] s"

text \<open>\<open>xs[i]\<close> on an array of strings: \<open>undefined\<close> beyond its end.\<close>

definition index :: "string list \<Rightarrow> nat \<Rightarrow> jsval" where
  "index xs i = (if i < length xs then Str (xs ! i) else Undefined)"

text \<open>
  \<open>s.trim()\<close> strips the white space and the line terminators of JavaScript from both
  ends: U+0009 to U+000D, U+0020, U+00A0, U+1680, U+2000 to U+200A, U+2028, U+2029,
  U+202F, U+205F, U+3000 and U+FEFF, here with their UTF-8 bytes.
\<close>

definition white_space :: "string list" where
  "white_space =
     [[CHR 0x09], [CHR 0x0A], [CHR 0x0B], [CHR 0x0C], [CHR 0x0D], [CHR 0x20],
      [CHR 0xC2, CHR 0xA0], [CHR 0xE1, CHR 0x9A, CHR 0x80],
      [CHR 0xE2, CHR 0x80, CHR 0x80], [CHR 0xE2, CHR 0x80, CHR 0x81],
      [CHR 0xE2, CHR 0x80, CHR 0x82], [CHR 0xE2, CHR 0x80, CHR 0x83],
      [CHR 0xE2, CHR 0x80, CHR 0x84], [CHR 0xE2, CHR 0x80, CHR 0x85],
      [CHR 0xE2, CHR 0x80, CHR 0x86], [CHR 0xE2, CHR 0x80, CHR 0x87],
      [CHR 0xE2, CHR 0x80, CHR 0x88], [CHR 0xE2, CHR 0x80, CHR 0x89],
      [CHR 0xE2, CHR 0x80, CHR 0x8A], [CHR 0xE2, CHR 0x80, CHR 0xA8],
      [CHR 0xE2, CHR 0x80, CHR 0xA9], [CHR 0xE2, CHR 0x80, CHR 0xAF],
      [CHR 0xE2, CHR 0x81, CHR 0x9F], [CHR 0xE3, CHR 0x80, CHR 0x80],
      [CHR 0xEF, CHR 0xBB, CHR 0xBF]]"

text \<open>Stripping from the front every leading piece that is one of \<open>ws\<close>.\<close>

function strip_start :: "string list \<Rightarrow> string \<Rightarrow> string" where
  "strip_start ws s =
     (case List.find (\<lambda>p. p \<noteq> [] \<and> take (length p) s = p) ws of
        None \<Rightarrow> s
      | Some p \<Rightarrow> strip_start ws (drop (length p) s))"
  by pat_completeness auto
termination
proof (relation "measure (\<lambda>(ws, s). length s)")
  show "wf (measure (\<lambda>(ws, s). length s))"
    by simp
next
  fix ws :: "string list" and s p :: string
  assume "List.find (\<lambda>p. p \<noteq> [] \<and> take (length p) s = p) ws = Some p"
  then have "p \<noteq> []" and "take (length p) s = p"
    by (auto simp: find_Some_iff)
  then have "s \<noteq> []" and "0 < length p"
    by auto
  then show "((ws, drop (length p) s), (ws, s)) \<in> measure (\<lambda>(ws, s). length s)"
    by simp
qed

declare strip_start.simps [simp del]

definition trim :: "string \<Rightarrow> string" where
  "trim s = rev (strip_start (map rev white_space) (rev (strip_start white_space s)))"

text \<open>\<open>s.lastIndexOf(c)\<close>: the position of the last \<open>c\<close>, or \<open>-1\<close>.\<close>

definition lastIndexOf :: "string \<Rightarrow> char \<Rightarrow> int" where
  "lastIndexOf s c =
     (if c \<in> set s then int (length s) - 1 - int (length (takeWhile (\<lambda>x. x \<noteq> c) (rev s)))
      else - 1)"

text \<open>\<open>s.substring(a, b)\<close>: both ends are clamped to the string and put in order.\<close>

definition substring :: "string \<Rightarrow> int \<Rightarrow> int \<Rightarrow> string" where
  "substring s a b =
     (let n = int (length s);
          a' = max 0 (min a n);
          b' = max 0 (min b n)
      in take (nat (max a' b' - min a' b')) (drop (nat (min a' b')) s))"

text \<open>\<open>typeof v\<close>\<close>

fun typeof :: "jsval \<Rightarrow> string" where
  "typeof Undefined = ''undefined''"
| "typeof (Bool b) = ''boolean''"
| "typeof (Num n) = ''number''"
| "typeof NaN = ''number''"
| "typeof (Str s) = ''string''"
| "typeof (Func f) = ''function''"
| "typeof v = ''object''"

subsection \<open>The plugin's collaborators\<close>

text \<open>
  The module \<open>image-source\<close> is not part of the plugin: its functions are parameters.
  \<open>fromFile\<close> and \<open>fromBase64\<close> return a value or throw one (\<open>Inl\<close>);
  \<open>toBase64String\<close> is the method of an image source, applied to its pixel data and
  a format.
\<close>

record image_source_module =
  fromFile :: "string \<Rightarrow> jsval + jsval"
  fromBase64 :: "jsval \<Rightarrow> jsval + jsval"
  toBase64String :: "string \<Rightarrow> string \<Rightarrow> string"

text \<open>
  \<open>WebViewInterface.callJSFunction(name, args, onSuccess, onError)\<close> is not part of the
  plugin either. For a call it either calls \<open>onSuccess\<close> with a response, calls
  \<open>onError\<close> with an error, or calls neither.
\<close>

datatype reply = Success jsval | Failure jsval | NoReply

type_synonym WebViewInterface = "string \<Rightarrow> jsval list \<Rightarrow> reply"

text \<open>The instance \<open>this\<close>: the canvas id and the interface made for the web view.\<close>

record NativescriptCanvasInterface =
  canvasId :: string
  webViewInterface :: WebViewInterface

text \<open>The state the native side leaves behind: the remote calls it issued, in order.\<close>

type_synonym remote_calls = "(string \<times> jsval list) list"

subsection \<open>The methods\<close>

text \<open>
  \<open>_getImageSourceFromBase64Str\<close>. A value without a \<open>split\<close> method makes the call
  throw a TypeError.
\<close>

definition getImageSourceFromBase64Str :: "image_source_module \<Rightarrow> jsval \<Rightarrow> jsval + jsval" where
  "getImageSourceFromBase64Str m base64ImageStr =
     (case base64ImageStr of
        Str s \<Rightarrow> fromBase64 m (index (split s CHR '','') 1)
      | _ \<Rightarrow> Inl TypeError)"

text \<open>
  \<open>_getBase64StrFromImageSource\<close>. A value that is no image source has no
  \<open>toBase64String\<close>: the call throws.
\<close>

definition getBase64StrFromImageSource ::
  "image_source_module \<Rightarrow> jsval \<Rightarrow> jsval \<Rightarrow> jsval + string" where
  "getBase64StrFromImageSource m imageSource format =
     (case imageSource of
        ImageSource d \<Rightarrow>
          (if format = Str ''jpeg'' \<or> format = Str ''jpg''
           then Inr (''data:image/jpeg;base64,'' @ toBase64String m d ''jpeg'')
           else Inr (''data:image/png;base64,'' @ toBase64String m d ''png''))
      | _ \<Rightarrow> Inl TypeError)"

text \<open>
  \<open>_resolveImageSourceAndFormat\<close>: the two \<open>if\<close> statements in order, each taking the
  pair (image source, format) so far; the first may throw, if \<open>fromFile\<close> does.
\<close>

definition resolve_path :: "image_source_module \<Rightarrow> jsval \<Rightarrow> jsval \<Rightarrow> jsval + (jsval \<times> jsval)" where
  "resolve_path m img format =
     (case img of
        Str s \<Rightarrow>
          (if truthy img \<and> typeof img = ''string'' \<and> length (trim s) > 0
           then (case fromFile m s of
                   Inl e \<Rightarrow> Inl e
                 | Inr imageSource \<Rightarrow>
                     Inr (imageSource,
                          js_or format
                            (Str (substring s (lastIndexOf s CHR ''.'' + 1) (int (length s))))))
           else Inr (Undefined, format))
      | _ \<Rightarrow> Inr (Undefined, format))"

definition resolve_object :: "jsval \<Rightarrow> jsval \<times> jsval \<Rightarrow> jsval \<times> jsval" where
  "resolve_object img sf =
     (if typeof img = ''object''
      then (case img of
              Image src \<Rightarrow> (src, snd sf)
            | ImageSource d \<Rightarrow> (img, snd sf)
            | _ \<Rightarrow> sf)
      else sf)"

definition resolveImageSourceAndFormat ::
  "image_source_module \<Rightarrow> jsval \<Rightarrow> jsval \<Rightarrow> jsval + (jsval \<times> jsval)" where
  "resolveImageSourceAndFormat m img format =
     (case resolve_path m img format of
        Inl e \<Rightarrow> Inl e
      | Inr sf \<Rightarrow> Inr (resolve_object img sf))"

text \<open>
  \<open>_callJSFunction\<close>. The promise settles in the callback the interface calls. A throw
  inside the success callback is caught by nothing and leaves the promise pending.
\<close>

definition callJSFunction ::
  "image_source_module \<Rightarrow> NativescriptCanvasInterface \<Rightarrow> string \<Rightarrow> jsval list \<Rightarrow> remote_calls run"
  where
  "callJSFunction m this functionName args =
     (let calls = [(functionName, args)] in
      (case webViewInterface this functionName args of
         Success response \<Rightarrow>
           (if truthy response then
              (case get_prop response ''_strImage'' of
                 Inl e \<Rightarrow> \<lparr>promise = Pending, unhandled = [e], final = calls\<rparr>
               | Inr strImage \<Rightarrow>
                   (case (if truthy strImage then getImageSourceFromBase64Str m strImage
                          else Inr Null) of
                      Inl e \<Rightarrow> \<lparr>promise = Pending, unhandled = [e], final = calls\<rparr>
                    | Inr img \<Rightarrow>
                        (case get_prop response ''data'' of
                           Inl e \<Rightarrow> \<lparr>promise = Pending, unhandled = [e], final = calls\<rparr>
                         | Inr d \<Rightarrow>
                             \<lparr>promise = resolution (Obj [(''image'', img), (''data'', js_or d Null)]),
                              unhandled = [], final = calls\<rparr>)))
            else \<lparr>promise = resolution Undefined, unhandled = [], final = calls\<rparr>)
       | Failure error \<Rightarrow> \<lparr>promise = Rejected error, unhandled = [], final = calls\<rparr>
       | NoReply \<Rightarrow> \<lparr>promise = Pending, unhandled = [], final = calls\<rparr>))"

text \<open>
  \<open>setImage(functionName, image, args, format)\<close>. An argument left out is \<open>undefined\<close>,
  and the default \<open>'png'\<close> replaces an \<open>undefined\<close> format. \<open>Inl\<close> is a value thrown to
  the caller.
\<close>

definition setImage ::
  "image_source_module \<Rightarrow> NativescriptCanvasInterface \<Rightarrow> string \<Rightarrow> jsval \<Rightarrow> jsval \<Rightarrow> jsval \<Rightarrow>
   jsval + remote_calls run" where
  "setImage m this functionName img args format =
     (case resolveImageSourceAndFormat m img (if format = Undefined then Str ''png'' else format) of
        Inl e \<Rightarrow> Inl e
      | Inr (imageSource, format') \<Rightarrow>
          (if \<not> truthy imageSource
           then Inr \<lparr>promise =
                       Rejected (Str ''Please provide Image, ImageSource object or Valid Image Path''),
                     unhandled = [], final = []\<rparr>
           else (case getBase64StrFromImageSource m imageSource format' of
                   Inl e \<Rightarrow> Inl e
                 | Inr base64ImageStr \<Rightarrow>
                     Inr (callJSFunction m this ''NSCanvasInterface._setImage''
                            (js_concat [Str (canvasId this), Str functionName, Str base64ImageStr]
                               (js_or args (Arr [])))))))"

text \<open>\<open>createImage(functionName, args, format)\<close>\<close>

definition createImage ::
  "image_source_module \<Rightarrow> NativescriptCanvasInterface \<Rightarrow> string \<Rightarrow> jsval \<Rightarrow> jsval \<Rightarrow>
   remote_calls run" where
  "createImage m this functionName args format =
     callJSFunction m this ''NSCanvasInterface._createImage''
       [Str (canvasId this), Str functionName,
        (if format = Undefined then Str ''png'' else format), args]"

section \<open>Example states\<close>

text \<open>
  A page with canvas elements that all carry the id \<open>canvasEle\<close> and a blank bitmap,
  and no \<open>NSCanvasInterface\<close> yet.
\<close>

definition blank_document :: document where
  "blank_document r = \<lparr>elem_id = ''canvasEle'', bitmap = ''blank''\<rparr>"

text \<open>
  What the functions of \<open>Object.prototype\<close> do in a browser when they are applied, with
  the global object as \<open>this\<close>, to a canvas, its context and further arguments:
  \<open>Object\<close> returns its first argument, an object, as it is.
\<close>

definition browser_builtin :: "string \<Rightarrow> jsval list \<Rightarrow> completion" where
  "browser_builtin name argv =
     (if name = ''constructor''
      then (case argv of v # rest \<Rightarrow> Returns v | [] \<Rightarrow> Returns (Obj []))
      else if name \<in> set [''toString'', ''toLocaleString'']
      then Returns (Str ''[object Window]'')
      else if name = ''valueOf'' then Returns Window
      else if name \<in> set [''hasOwnProperty'', ''isPrototypeOf'', ''propertyIsEnumerable'']
      then Returns (Bool False)
      else if name \<in> set [''__lookupGetter__'', ''__lookupSetter__'']
      then Returns Undefined
      else Throws TypeError)"

definition empty_webview :: webview where
  "empty_webview =
     \<lparr>elements = blank_document,
      objects = (\<lambda>r. \<lparr>canvas = 0, canvasReqHandlers = Map.empty\<rparr>),
      canvasInterfaceInstanceMap = Map.empty,
      fresh = 0,
      invoked = [],
      builtin = browser_builtin\<rparr>"

text \<open>A handler that returns \<open>v\<close>, and one that first draws \<open>px\<close> on the canvas it is given.\<close>

definition returning :: "jsval \<Rightarrow> canvasReqHandler" where
  "returning v argv doc = (Returns v, doc)"

definition drawing :: "string \<Rightarrow> jsval \<Rightarrow> canvasReqHandler" where
  "drawing px v argv doc =
     (case argv of
        HTMLCanvas c # rest \<Rightarrow> (Returns v, doc(c := (doc c)\<lparr>bitmap := px\<rparr>))
      | _ \<Rightarrow> (Returns v, doc))"

definition demo_handlers :: "string \<rightharpoonup> canvasReqHandler" where
  "demo_handlers =
     [''boom'' \<mapsto> returning (Thenable (Rejected (Str ''boom''))),
      ''zero'' \<mapsto> returning (Num 0),
      ''drawShape'' \<mapsto> drawing ''red square'' (Obj [(''count'', Num 1)])]"

text \<open>The page after \<open>o = new NSCanvasInterface(canvas 0); o.canvasReqHandlers = {...}\<close>.\<close>

definition demo_webview :: webview where
  "demo_webview =
     (case NSCanvasInterface_constructor 0 empty_webview of
        (this, w) \<Rightarrow> assign_canvasReqHandlers this demo_handlers w)"


text \<open>The data URI of a PNG image of one pixel.\<close>

definition tiny_png :: string where
  "tiny_png =
     ''data:image/png;base64,iVBORw0KGgoAAAANSUhEUgAAAAEAAAABCAYAAAAfFcSJAAAADUlEQVR42mNkYPhfDwAChwGA60e6kgAAAABJRU5ErkJggg==''"

text \<open>A browser that loads every image, and one that loads none.\<close>

definition always_loads :: "string \<Rightarrow> bool" where
  "always_loads src = True"

definition never_loads :: "string \<Rightarrow> bool" where
  "never_loads src = False"

text \<open>A canvas export that shows the MIME type and the bitmap it was given.\<close>

definition demo_toDataURL :: "HTMLCanvasElement \<Rightarrow> string \<Rightarrow> string" where
  "demo_toDataURL c mime = ''data:'' @ mime @ '';base64,'' @ bitmap c"

text \<open>
  An \<open>image-source\<close> module whose image sources show where they came from, and an
  instance whose web-view interface gives the same reply to every call.
\<close>

definition demo_module :: image_source_module where
  "demo_module =
     \<lparr>fromFile = (\<lambda>path. Inr (ImageSource (''file '' @ path))),
      fromBase64 = (\<lambda>v. case v of Str s \<Rightarrow> Inr (ImageSource s) | _ \<Rightarrow> Inr Null),
      toBase64String = (\<lambda>d format. format @ '' bytes of '' @ d)\<rparr>"

definition answering :: "reply \<Rightarrow> NativescriptCanvasInterface" where
  "answering r = \<lparr>canvasId = ''canvasEle'', webViewInterface = (\<lambda>name args. r)\<rparr>"

section \<open>What the spec says of the decoder\<close>

text \<open>
  Follows the spec's words, not the source: split on the first comma and decode the
  whole remainder; fail when there is no comma.
\<close>

definition spec_decode :: "image_source_module \<Rightarrow> string \<Rightarrow> jsval + jsval" where
  "spec_decode m s =
     (if CHR '','' \<in> set s
      then fromBase64 m (Str (tl (dropWhile (\<lambda>x. x \<noteq> CHR '','') s)))
      else Inl (Str ''MalformedImageData''))"

section \<open>Basic facts\<close>

lemma falsy_values:
  "(\<not> truthy v) = (v \<in> set [Undefined, Null, Bool False, Num 0, NaN, Str []])"
  by (cases v) auto

lemma resolution_settled: "resolution v = Fulfilled x \<Longrightarrow> resolution x = Fulfilled x"
  by (induction v rule: resolution.induct) auto

lemma resolution_Promise_resolve: "resolution (Promise_resolve v) = resolution v"
  by (cases "resolution v") (auto simp: Promise_resolve_def resolution_settled)

lemma settle_retnValue_Returns:
  "settle_retnValue (Returns v) = (if \<not> truthy v then Fulfilled Undefined else resolution v)"
  by (cases v)
    (auto simp: settle_retnValue_def resolution_Promise_resolve split: sum.splits option.splits)

lemma js_concat_Cons: "js_concat (x # xs) a = x # js_concat xs a"
  by (cases a) simp_all

text \<open>
  \<open>split\<close> by its first piece and the rest, and the second piece \<open>split(",")[1]\<close>: the
  text between the first separator and the next one (or the end).
\<close>

lemma split_from_eq:
  "split_from c cur s =
     (rev cur @ takeWhile (\<lambda>x. x \<noteq> c) s) #
     (if c \<in> set s then split_from c [] (tl (dropWhile (\<lambda>x. x \<noteq> c) s)) else [])"
  by (induction s arbitrary: cur) auto

lemma index_split:
  "index (split s c) 1 =
     (if c \<in> set s
      then Str (takeWhile (\<lambda>x. x \<noteq> c) (tl (dropWhile (\<lambda>x. x \<noteq> c) s)))
      else Undefined)"
proof (cases "c \<in> set s")
  case True
  define r where "r = tl (dropWhile (\<lambda>x. x \<noteq> c) s)"
  have "split s c = takeWhile (\<lambda>x. x \<noteq> c) s # split_from c [] r"
    using True split_from_eq [of c "[]" s] by (simp add: split_def r_def)
  also have "split_from c [] r =
      takeWhile (\<lambda>x. x \<noteq> c) r #
      (if c \<in> set r then split_from c [] (tl (dropWhile (\<lambda>x. x \<noteq> c) r)) else [])"
    using split_from_eq [of c "[]" r] by simp
  finally have "index (split s c) 1 = Str (takeWhile (\<lambda>x. x \<noteq> c) r)"
    by (simp add: index_def)
  with True show ?thesis by (simp add: r_def)
next
  case False
  have "split s c = [s]"
    using False split_from_eq [of c "[]" s] by (auto simp: split_def takeWhile_eq_all_conv)
  with False show ?thesis by (simp add: index_def)
qed

lemma one_separator:
  "count_list s c = 1 \<Longrightarrow> c \<in> set s \<and> c \<notin> set (tl (dropWhile (\<lambda>x. x \<noteq> c) s))"
proof (induction s)
  case Nil
  then show ?case by simp
next
  case (Cons x xs)
  show ?case
  proof (cases "x = c")
    case True
    with Cons.prems have "count_list xs c = 0" by simp
    then have "c \<notin> set xs" by (simp add: count_list_0_iff)
    with True show ?thesis by simp
  next
    case False
    with Cons show ?thesis by simp
  qed
qed

text \<open>\<open>trim\<close> on the empty string and on a path without white space.\<close>

lemma strip_start_Nil: "strip_start ws [] = []"
proof -
  have "List.find (\<lambda>p. p \<noteq> [] \<and> take (length p) [] = p) ws = None"
    by (auto simp: find_None_iff)
  then show ?thesis
    by (subst strip_start.simps) simp
qed

lemma trim_Nil: "trim [] = []"
  by (simp add: trim_def strip_start_Nil)

lemma trim_photo: "trim ''photo.jpg'' = ''photo.jpg''"
proof -
  have "strip_start white_space ''photo.jpg'' = ''photo.jpg''"
    by (subst strip_start.simps) (simp add: white_space_def)
  moreover have "strip_start (map rev white_space) ''gpj.otohp'' = ''gpj.otohp''"
    by (subst strip_start.simps) (simp add: white_space_def)
  ultimately show ?thesis
    by (simp add: trim_def)
qed

text \<open>Reading a table.\<close>

lemma js_get_Some: "table name = Some v \<Longrightarrow> js_get table name = Own v"
  by (simp add: js_get_def)

lemma getCanvasInstanceById_Own:
  "(NSCanvasInterface_getCanvasInstanceById w cid = Own this) =
     (canvasInterfaceInstanceMap w cid = Some this)"
  by (auto simp: NSCanvasInterface_getCanvasInstanceById_def split: option.splits)



text \<open>The ways through \<open>_callCanvasReqHandler\<close>.\<close>

lemma callCanvasReqHandler_inherited_instance:
  "NSCanvasInterface_getCanvasInstanceById w cid = Inherited \<Longrightarrow>
   NSCanvasInterface_callCanvasReqHandler w cid functionName args = (Inl TypeError, w)"
  by (simp add: NSCanvasInterface_callCanvasReqHandler_def)

lemma callCanvasReqHandler_inherited_handler:
  "NSCanvasInterface_getCanvasInstanceById w cid = Own this \<Longrightarrow>
   js_get (canvasReqHandlers (objects w this)) functionName = Inherited \<Longrightarrow>
   functionName \<noteq> ''__proto__'' \<Longrightarrow>
   NSCanvasInterface_callCanvasReqHandler w cid functionName args =
     (Inr (settle_retnValue
             (builtin w functionName
                (js_concat [HTMLCanvas (canvas (objects w this)),
                            Context2D (canvas (objects w this))] args))),
      w\<lparr>invoked := invoked w @
          [(this, functionName,
            js_concat [HTMLCanvas (canvas (objects w this)), Context2D (canvas (objects w this))]
              args)]\<rparr>)"
  by (simp add: NSCanvasInterface_callCanvasReqHandler_def Let_def)

lemma callCanvasReqHandler_no_instance:
  "NSCanvasInterface_getCanvasInstanceById w cid = Missing \<Longrightarrow>
   NSCanvasInterface_callCanvasReqHandler w cid functionName args =
     (Inl (Str (''No canvas interface instance found for canvas '' @ cid)), w)"
  by (simp add: NSCanvasInterface_callCanvasReqHandler_def)

lemma callCanvasReqHandler_no_handler:
  "NSCanvasInterface_getCanvasInstanceById w cid = Own this \<Longrightarrow>
   js_get (canvasReqHandlers (objects w this)) functionName = Missing \<Longrightarrow>
   NSCanvasInterface_callCanvasReqHandler w cid functionName args =
     (Inl (Str (''Function '' @ functionName @ '' is not registered with canvas '' @ cid)), w)"
  by (simp add: NSCanvasInterface_callCanvasReqHandler_def)

lemma callCanvasReqHandler_handler:
  "NSCanvasInterface_getCanvasInstanceById w cid = Own this \<Longrightarrow>
   canvasReqHandlers (objects w this) functionName = Some h \<Longrightarrow>
   h (js_concat [HTMLCanvas (canvas (objects w this)), Context2D (canvas (objects w this))] args)
     (elements w) = (c, doc) \<Longrightarrow>
   NSCanvasInterface_callCanvasReqHandler w cid functionName args =
     (Inr (settle_retnValue c),
      w\<lparr>elements := doc,
        invoked := invoked w @
          [(this, functionName,
            js_concat [HTMLCanvas (canvas (objects w this)), Context2D (canvas (objects w this))]
              args)]\<rparr>)"
  by (simp add: NSCanvasInterface_callCanvasReqHandler_def Let_def js_get_Some)

text \<open>The example page.\<close>

lemma demo_webview_instance:
  "NSCanvasInterface_getCanvasInstanceById demo_webview ''canvasEle'' = Own 0"
  by (simp add: NSCanvasInterface_getCanvasInstanceById_def demo_webview_def
      NSCanvasInterface_constructor_def assign_canvasReqHandlers_def empty_webview_def
      blank_document_def)

lemma demo_webview_handlers: "canvasReqHandlers (objects demo_webview 0) = demo_handlers"
  by (simp add: demo_webview_def NSCanvasInterface_constructor_def assign_canvasReqHandlers_def
      empty_webview_def)

lemma demo_webview_canvas: "canvas (objects demo_webview 0) = 0"
  by (simp add: demo_webview_def NSCanvasInterface_constructor_def assign_canvasReqHandlers_def
      empty_webview_def)

lemma demo_webview_invoked: "invoked demo_webview = []"
  by (simp add: demo_webview_def NSCanvasInterface_constructor_def assign_canvasReqHandlers_def
      empty_webview_def)

lemma demo_webview_elements: "elements demo_webview = blank_document"
  by (simp add: demo_webview_def NSCanvasInterface_constructor_def assign_canvasReqHandlers_def
      empty_webview_def)

lemma demo_boom:
  "NSCanvasInterface_callCanvasReqHandler demo_webview ''canvasEle'' ''boom'' args =
     (Inr (Rejected (Str ''boom'')),
      demo_webview\<lparr>invoked := [(0, ''boom'', js_concat [HTMLCanvas 0, Context2D 0] args)]\<rparr>)"
  by (simp add: callCanvasReqHandler_handler [OF demo_webview_instance,
        where h = "returning (Thenable (Rejected (Str ''boom'')))"
          and c = "Returns (Thenable (Rejected (Str ''boom'')))"
          and doc = "elements demo_webview"]
      demo_webview_handlers demo_handlers_def returning_def settle_retnValue_def
      demo_webview_canvas demo_webview_invoked)

lemma demo_zero:
  "NSCanvasInterface_callCanvasReqHandler demo_webview ''canvasEle'' ''zero'' args =
     (Inr (Fulfilled Undefined),
      demo_webview\<lparr>invoked := [(0, ''zero'', js_concat [HTMLCanvas 0, Context2D 0] args)]\<rparr>)"
  by (simp add: callCanvasReqHandler_handler [OF demo_webview_instance,
        where h = "returning (Num 0)" and c = "Returns (Num 0)"
          and doc = "elements demo_webview"]
      demo_webview_handlers demo_handlers_def returning_def settle_retnValue_def
      demo_webview_canvas demo_webview_invoked Promise_resolve_def)


lemma demo_webview_builtin: "builtin demo_webview = browser_builtin"
  by (simp add: demo_webview_def NSCanvasInterface_constructor_def assign_canvasReqHandlers_def
      empty_webview_def)

lemma demo_webview_other:
  "NSCanvasInterface_getCanvasInstanceById demo_webview ''other'' = Missing"
  by (simp add: NSCanvasInterface_getCanvasInstanceById_def demo_webview_def
      NSCanvasInterface_constructor_def assign_canvasReqHandlers_def empty_webview_def
      blank_document_def Object_prototype_def)

lemma demo_webview_toString:
  "NSCanvasInterface_getCanvasInstanceById demo_webview ''toString'' = Inherited"
  by (simp add: NSCanvasInterface_getCanvasInstanceById_def demo_webview_def
      NSCanvasInterface_constructor_def assign_canvasReqHandlers_def empty_webview_def
      blank_document_def Object_prototype_def)

lemma demo_nope: "js_get (canvasReqHandlers (objects demo_webview 0)) ''nope'' = Missing"
  by (simp add: demo_webview_handlers demo_handlers_def js_get_def Object_prototype_def)

lemma demo_constructor:
  "NSCanvasInterface_callCanvasReqHandler demo_webview ''canvasEle'' ''constructor'' (Arr []) =
     (Inr (Fulfilled (HTMLCanvas 0)),
      demo_webview\<lparr>invoked := [(0, ''constructor'', [HTMLCanvas 0, Context2D 0])]\<rparr>)"
proof -
  have "js_get (canvasReqHandlers (objects demo_webview 0)) ''constructor'' = Inherited"
    by (simp add: demo_webview_handlers demo_handlers_def js_get_def Object_prototype_def)
  from callCanvasReqHandler_inherited_handler [OF demo_webview_instance this]
  show ?thesis
    by (simp add: demo_webview_canvas demo_webview_invoked demo_webview_builtin
        browser_builtin_def settle_retnValue_Returns)
qed


lemma demo_drawShape:
  "drawing ''red square'' (Obj [(''count'', Num 1)])
     (js_concat [HTMLCanvas (canvas (objects demo_webview 0)),
                 Context2D (canvas (objects demo_webview 0))] (Arr []))
     (elements demo_webview) =
   (Returns (Obj [(''count'', Num 1)]),
    blank_document(0 := \<lparr>elem_id = ''canvasEle'', bitmap = ''red square''\<rparr>))"
  by (simp add: drawing_def demo_webview_canvas demo_webview_elements blank_document_def)

section \<open>A handler's rejection\<close>

text \<open>
  On any page: when the promise made by \<open>_callCanvasReqHandler\<close> rejects (the handler
  returned a thenable that rejects, or threw), the promise of the entry point stays
  pending and the rejection is handled by nothing.
\<close>

lemma settle_retnValue_rejecting:
  "settle_retnValue (Returns (Thenable (Rejected e))) = Rejected e"
  "settle_retnValue (Throws e) = Rejected e"
  by (simp_all add: settle_retnValue_def)

lemma createImage_rejection_pending:
  assumes "NSCanvasInterface_getCanvasInstanceById w cid = Own this"
    and "canvasReqHandlers (objects w this) fn = Some h"
    and "h (js_concat [HTMLCanvas (canvas (objects w this)), Context2D (canvas (objects w this))]
              args) (elements w) = (c, doc)"
    and "settle_retnValue c = Rejected e"
  shows "promise (NSCanvasInterface_createImage toDataURL later w cid fn imgFormat args) = Pending"
    and "unhandled (NSCanvasInterface_createImage toDataURL later w cid fn imgFormat args) = [e]"
  using callCanvasReqHandler_handler [OF assms(1-3)] assms(4)
  by (simp_all add: NSCanvasInterface_createImage_def)

lemma setImage_rejection_pending:
  assumes "loads src"
    and "NSCanvasInterface_getCanvasInstanceById w cid = Own this"
    and "canvasReqHandlers (objects w this) fn = Some h"
    and "h (js_concat [HTMLCanvas (canvas (objects w this)), Context2D (canvas (objects w this))]
              (Arr (js_concat [HTMLImageElement src] args))) (elements w) = (c, doc)"
    and "settle_retnValue c = Rejected e"
  shows "promise (NSCanvasInterface_setImage loads w cid fn src args) = Pending"
    and "unhandled (NSCanvasInterface_setImage loads w cid fn src args) = [e]"
  using callCanvasReqHandler_handler [OF assms(2-4)] assms(1,5)
  by (simp_all add: NSCanvasInterface_setImage_def)

text \<open>
  C1. The claim: when the promise a handler returns rejects with a value, the promise of
  \<open>_setImage\<close> and of \<open>_createImage\<close> rejects with that value. On the example page the
  handler \<open>boom\<close> returns a promise that rejects with \<open>"boom"\<close>. Both entry points pass
  only a fulfilment callback to \<open>then\<close> and their \<open>try\<close> block has ended by the time the
  rejection arrives: the promise they returned stays pending for ever, and the
  rejection is left on the promise derived by \<open>then\<close>, which nothing handles.
\<close>

theorem handler_rejection_never_settles_dispatch:
  "promise (NSCanvasInterface_createImage toDataURL later demo_webview
              ''canvasEle'' ''boom'' ''png'' (Arr [])) = Pending
   \<and> unhandled (NSCanvasInterface_createImage toDataURL later demo_webview
              ''canvasEle'' ''boom'' ''png'' (Arr [])) = [Str ''boom'']
   \<and> promise (NSCanvasInterface_setImage always_loads demo_webview
              ''canvasEle'' ''boom'' ''data:image/png;base64,AAAA'' (Arr [])) = Pending
   \<and> unhandled (NSCanvasInterface_setImage always_loads demo_webview
              ''canvasEle'' ''boom'' ''data:image/png;base64,AAAA'' (Arr [])) = [Str ''boom'']"
  by (simp add: NSCanvasInterface_createImage_def NSCanvasInterface_setImage_def demo_boom
      always_loads_def)

section \<open>The value a handler returns\<close>

text \<open>
  What \<open>_callCanvasReqHandler\<close> makes of the value \<open>v\<close> that a registered handler
  returns: every falsy \<open>v\<close> (\<open>undefined\<close>, \<open>null\<close>, \<open>false\<close>, \<open>0\<close>, \<open>NaN\<close> and the empty
  string) gives the value \<open>undefined\<close>; a thenable is followed to the way it settles;
  every other value is passed through unchanged.
\<close>

lemma handler_value_normalized:
  assumes "NSCanvasInterface_getCanvasInstanceById w cid = Own this"
    and "canvasReqHandlers (objects w this) fn = Some h"
    and "fst (h (js_concat [HTMLCanvas (canvas (objects w this)),
                            Context2D (canvas (objects w this))] args) (elements w)) = Returns v"
  shows "fst (NSCanvasInterface_callCanvasReqHandler w cid fn args) =
           Inr (if v \<in> set [Undefined, Null, Bool False, Num 0, NaN, Str []]
                then Fulfilled Undefined
                else (case v of Thenable p \<Rightarrow> resolution (Thenable p) | _ \<Rightarrow> Fulfilled v))"
proof -
  obtain c doc where h: "h (js_concat [HTMLCanvas (canvas (objects w this)),
        Context2D (canvas (objects w this))] args) (elements w) = (c, doc)"
    by (cases "h (js_concat [HTMLCanvas (canvas (objects w this)),
        Context2D (canvas (objects w this))] args) (elements w)")
  with assms(3) have c: "c = Returns v" by simp
  have "fst (NSCanvasInterface_callCanvasReqHandler w cid fn args) = Inr (settle_retnValue c)"
    using callCanvasReqHandler_handler [OF assms(1) assms(2) h] by simp
  also have "settle_retnValue c = (if \<not> truthy v then Fulfilled Undefined else resolution v)"
    by (simp add: c settle_retnValue_Returns)
  also have "\<dots> = (if v \<in> set [Undefined, Null, Bool False, Num 0, NaN, Str []]
                then Fulfilled Undefined
                else (case v of Thenable p \<Rightarrow> resolution (Thenable p) | _ \<Rightarrow> Fulfilled v))"
    unfolding falsy_values by (cases v) simp_all
  finally show ?thesis .
qed

text \<open>
  C3. The claim: a value that a handler returns, \<open>0\<close>, \<open>false\<close> and the empty string
  included, is passed through unchanged unless it is \<open>undefined\<close>, \<open>null\<close> or a thenable.
  On the example page the handler \<open>zero\<close> returns \<open>0\<close>. The test \<open>!retnValue\<close> takes \<open>0\<close>
  for no value: the promise of \<open>_callCanvasReqHandler\<close> is fulfilled with \<open>undefined\<close>,
  so that \<open>_setImage\<close> resolves with \<open>undefined\<close> and \<open>_createImage\<close> with the data
  \<open>undefined\<close>.
\<close>

theorem zero_is_not_passed_through:
  "fst (NSCanvasInterface_callCanvasReqHandler demo_webview ''canvasEle'' ''zero'' (Arr [])) =
     Inr (Fulfilled Undefined)
   \<and> promise (NSCanvasInterface_setImage always_loads demo_webview ''canvasEle'' ''zero''
                tiny_png (Arr [])) = Fulfilled Undefined
   \<and> promise (NSCanvasInterface_createImage demo_toDataURL id demo_webview ''canvasEle''
                ''zero'' ''png'' (Arr [])) =
       Fulfilled (Obj [(''_strImage'', Str ''data:image/png;base64,blank''),
                       (''data'', Undefined)])"
proof -
  have "NSCanvasInterface_getCanvasInstanceById
          (demo_webview\<lparr>invoked := [(0, ''zero'', [HTMLCanvas 0, Context2D 0])]\<rparr>)
          ''canvasEle'' = Own 0"
    using demo_webview_instance by (simp add: getCanvasInstanceById_Own)
  then show ?thesis
    by (simp add: demo_zero NSCanvasInterface_setImage_def NSCanvasInterface_createImage_def
        always_loads_def demo_toDataURL_def demo_webview_canvas demo_webview_elements
        blank_document_def)
qed

section \<open>Waiting for the image\<close>

text \<open>
  C2, as the code has it. In \<open>_setImage\<close> the handler is called from the image's
  \<open>onload\<close> callback only: if the log of handler calls has grown, the image has loaded,
  and the one call added has the loaded image as the argument after the canvas and its
  context. When the image does not load, nothing is called, the state is unchanged,
  and the promise is left pending: it is not rejected.
\<close>

theorem setImage_waits_for_load:
  "(\<not> loads src \<longrightarrow>
      NSCanvasInterface_setImage loads w cid fn src args =
        \<lparr>promise = Pending, unhandled = [], final = w\<rparr>)
   \<and> (invoked (final (NSCanvasInterface_setImage loads w cid fn src args)) = invoked w
      \<or> (loads src \<and>
          (\<exists>this. NSCanvasInterface_getCanvasInstanceById w cid = Own this \<and>
             invoked (final (NSCanvasInterface_setImage loads w cid fn src args)) =
               invoked w @
                 [(this, fn,
                   js_concat [HTMLCanvas (canvas (objects w this)),
                              Context2D (canvas (objects w this)), HTMLImageElement src] args)])))"
proof (cases "loads src")
  case False
  then show ?thesis by (simp add: NSCanvasInterface_setImage_def)
next
  case True
  then show ?thesis
    by (auto simp: NSCanvasInterface_setImage_def NSCanvasInterface_callCanvasReqHandler_def
        Let_def js_concat_Cons
        split: lookup.splits prod.splits sum.splits outcome.splits if_splits)
qed

text \<open>
  C2, witness: a browser that loads no image, and a request for the registered handler
  \<open>drawShape\<close>.
\<close>

theorem setImage_waits_for_load_witness:
  "NSCanvasInterface_setImage never_loads demo_webview ''canvasEle'' ''drawShape'' ''garbage''
     (Arr []) =
   \<lparr>promise = Pending, unhandled = [], final = demo_webview\<rparr>"
  using setImage_waits_for_load [of never_loads "''garbage''" demo_webview "''canvasEle''"
      "''drawShape''" "Arr []"]
  by (simp add: never_loads_def)

text \<open>
  C2, against the claim as written (which has the promise rejected when the image does
  not load): the promise is pending.
\<close>

theorem undecodable_image_is_not_rejected:
  "promise (NSCanvasInterface_setImage never_loads demo_webview
              ''canvasEle'' ''drawShape'' ''garbage'' (Arr [])) = Pending"
  by (simp add: NSCanvasInterface_setImage_def never_loads_def)

section \<open>Requests that cannot be routed\<close>

text \<open>
  C8, as the code has it. For every request to \<open>_createImage\<close>, and every request to
  \<open>_setImage\<close> whose image has loaded: when the read of the instance table finds
  nothing for the canvas id (no instance is registered under it and it is not a name
  that the table inherits), the promise rejects with the message that no instance was
  found; when there is an instance and the read of its handler table finds nothing
  for the name (no handler is registered under it and it is not a name of
  \<open>Object.prototype\<close>), the promise rejects with the message that the function is not
  registered. In both cases the state, the log of handler calls included, is as it
  was: no handler ran.
\<close>

theorem unrouted_dispatch_rejected:
  "(NSCanvasInterface_getCanvasInstanceById w cid = Missing \<longrightarrow>
      NSCanvasInterface_createImage toDataURL later w cid fn fmt args =
        \<lparr>promise = Rejected (Str (''No canvas interface instance found for canvas '' @ cid)),
         unhandled = [], final = w\<rparr>
      \<and> (loads src \<longrightarrow>
           NSCanvasInterface_setImage loads w cid fn src args =
             \<lparr>promise = Rejected (Str (''No canvas interface instance found for canvas '' @ cid)),
              unhandled = [], final = w\<rparr>))
   \<and> (NSCanvasInterface_getCanvasInstanceById w cid = Own this
        \<and> js_get (canvasReqHandlers (objects w this)) fn = Missing \<longrightarrow>
      NSCanvasInterface_createImage toDataURL later w cid fn fmt args =
        \<lparr>promise =
           Rejected (Str (''Function '' @ fn @ '' is not registered with canvas '' @ cid)),
         unhandled = [], final = w\<rparr>
      \<and> (loads src \<longrightarrow>
           NSCanvasInterface_setImage loads w cid fn src args =
             \<lparr>promise =
                Rejected (Str (''Function '' @ fn @ '' is not registered with canvas '' @ cid)),
              unhandled = [], final = w\<rparr>))"
  by (simp add: NSCanvasInterface_createImage_def NSCanvasInterface_setImage_def
      callCanvasReqHandler_no_instance callCanvasReqHandler_no_handler)

text \<open>
  C8, witness: on the example page, the id \<open>other\<close> has no instance and the name \<open>nope\<close>
  is not registered; the image of \<open>_setImage\<close> is a PNG of one pixel.
\<close>

theorem unrouted_dispatch_rejected_witness:
  "NSCanvasInterface_createImage demo_toDataURL id demo_webview ''other'' ''drawShape'' ''png''
     (Arr []) =
   \<lparr>promise = Rejected (Str ''No canvas interface instance found for canvas other''),
    unhandled = [], final = demo_webview\<rparr>
   \<and> NSCanvasInterface_setImage always_loads demo_webview ''other'' ''drawShape'' tiny_png
        (Arr []) =
      \<lparr>promise = Rejected (Str ''No canvas interface instance found for canvas other''),
       unhandled = [], final = demo_webview\<rparr>
   \<and> NSCanvasInterface_createImage demo_toDataURL id demo_webview ''canvasEle'' ''nope'' ''png''
        (Arr []) =
      \<lparr>promise = Rejected (Str ''Function nope is not registered with canvas canvasEle''),
       unhandled = [], final = demo_webview\<rparr>
   \<and> NSCanvasInterface_setImage always_loads demo_webview ''canvasEle'' ''nope'' tiny_png
        (Arr []) =
      \<lparr>promise = Rejected (Str ''Function nope is not registered with canvas canvasEle''),
       unhandled = [], final = demo_webview\<rparr>"
proof -
  have l: "always_loads tiny_png"
    by (simp add: always_loads_def)
  show ?thesis
    using unrouted_dispatch_rejected [of demo_webview "''other''" demo_toDataURL id
        "''drawShape''" "''png''" "Arr []" always_loads tiny_png 0]
      unrouted_dispatch_rejected [of demo_webview "''canvasEle''" demo_toDataURL id
        "''nope''" "''png''" "Arr []" always_loads tiny_png 0]
      demo_webview_other demo_nope l demo_webview_instance
    by simp
qed

text \<open>
  C8, against the claim as written (which has every request rejected when no instance
  or no handler is registered). On the example page no handler is registered under
  \<open>constructor\<close>, yet \<open>_createImage\<close> finds the function \<open>Object\<close> under that name, calls
  it and resolves; no instance is registered under \<open>toString\<close>, and the promise rejects
  with a TypeError, not with the message; and for the id \<open>other\<close>, which has no instance,
  the promise of \<open>_setImage\<close> is left pending when the image does not load.
\<close>

theorem unregistered_names_not_rejected:
  "promise (NSCanvasInterface_createImage demo_toDataURL id demo_webview ''canvasEle''
              ''constructor'' ''png'' (Arr [])) =
     Fulfilled (Obj [(''_strImage'', Str ''data:image/png;base64,blank''),
                     (''data'', HTMLCanvas 0)])
   \<and> promise (NSCanvasInterface_createImage demo_toDataURL id demo_webview ''toString''
                ''drawShape'' ''png'' (Arr [])) = Rejected TypeError
   \<and> promise (NSCanvasInterface_setImage never_loads demo_webview ''other'' ''drawShape''
                ''garbage'' (Arr [])) = Pending"
proof -
  have "NSCanvasInterface_getCanvasInstanceById
          (demo_webview\<lparr>invoked := [(0, ''constructor'', [HTMLCanvas 0, Context2D 0])]\<rparr>)
          ''canvasEle'' = Own 0"
    using demo_webview_instance by (simp add: getCanvasInstanceById_Own)
  then show ?thesis
    by (simp add: NSCanvasInterface_createImage_def NSCanvasInterface_setImage_def
        demo_constructor callCanvasReqHandler_inherited_instance [OF demo_webview_toString]
        never_loads_def demo_webview_canvas demo_webview_elements demo_toDataURL_def
        blank_document_def)
qed

section \<open>One instance per canvas id\<close>



section \<open>Which canvas is exported\<close>

text \<open>
  C10. In \<open>_createImage\<close>, once the handler's result has settled with a value, the
  instance is looked up again by the canvas id, in the state of that later moment, and
  the image is the export of the canvas of the instance found then. In particular,
  when in the meantime a new instance was made for a canvas \<open>cv\<close> with the same id, the
  image is the export of \<open>cv\<close> (as the handler's drawing left the document), whichever
  canvas the handler was called with.
\<close>

theorem createImage_exports_canvas_of_current_instance:
  assumes "NSCanvasInterface_getCanvasInstanceById w cid = Own old"
    and "canvasReqHandlers (objects w old) fn = Some h"
    and "h (js_concat [HTMLCanvas (canvas (objects w old)), Context2D (canvas (objects w old))]
              args) (elements w) = (c, doc)"
    and "settle_retnValue c = Fulfilled d"
  shows "(NSCanvasInterface_getCanvasInstanceById
            (later (snd (NSCanvasInterface_callCanvasReqHandler w cid fn args))) cid = Own cur \<longrightarrow>
          promise (NSCanvasInterface_createImage toDataURL later w cid fn imgFormat args) =
            Fulfilled (Obj [(''_strImage'',
                Str (toDataURL
                       (elements (later (snd (NSCanvasInterface_callCanvasReqHandler w cid fn args)))
                          (canvas (objects (later (snd (NSCanvasInterface_callCanvasReqHandler w cid
                                     fn args))) cur)))
                       (if imgFormat = ''png'' then ''image/png'' else ''image/jpeg''))),
              (''data'', d)]))
     \<and> (elem_id (doc cv) = cid \<longrightarrow>
          promise (NSCanvasInterface_createImage toDataURL
                     (\<lambda>s. snd (NSCanvasInterface_constructor cv s)) w cid fn imgFormat args) =
            Fulfilled (Obj [(''_strImage'',
                Str (toDataURL (doc cv)
                       (if imgFormat = ''png'' then ''image/png'' else ''image/jpeg''))),
              (''data'', d)]))"
  using callCanvasReqHandler_handler [OF assms(1-3)] assms(4) resolution_settled
  by (auto simp: NSCanvasInterface_createImage_def Let_def
      NSCanvasInterface_getCanvasInstanceById_def NSCanvasInterface_constructor_def)

text \<open>
  C10, witness: on the example page \<open>drawShape\<close> draws a red square on canvas 0. When an
  instance for canvas 1 (same id, still blank) is made before the result is handled,
  the image sent back is the blank one; when nothing happens in between, it is the red
  square.
\<close>

theorem createImage_exports_canvas_of_current_instance_witness:
  "promise (NSCanvasInterface_createImage demo_toDataURL
              (\<lambda>s. snd (NSCanvasInterface_constructor 1 s)) demo_webview
              ''canvasEle'' ''drawShape'' ''png'' (Arr [])) =
     Fulfilled (Obj [(''_strImage'', Str ''data:image/png;base64,blank''),
                     (''data'', Obj [(''count'', Num 1)])])
   \<and> promise (NSCanvasInterface_createImage demo_toDataURL (\<lambda>s. s) demo_webview
              ''canvasEle'' ''drawShape'' ''png'' (Arr [])) =
     Fulfilled (Obj [(''_strImage'', Str ''data:image/png;base64,red square''),
                     (''data'', Obj [(''count'', Num 1)])])"
proof -
  have h: "canvasReqHandlers (objects demo_webview 0) ''drawShape'' =
      Some (drawing ''red square'' (Obj [(''count'', Num 1)]))"
    by (simp add: demo_webview_handlers demo_handlers_def)
  have s: "settle_retnValue (Returns (Obj [(''count'', Num 1)])) =
      Fulfilled (Obj [(''count'', Num 1)])"
    by (simp add: settle_retnValue_Returns)
  note run = callCanvasReqHandler_handler [OF demo_webview_instance h demo_drawShape]
  have a: "NSCanvasInterface_getCanvasInstanceById
            (snd (NSCanvasInterface_callCanvasReqHandler demo_webview ''canvasEle''
                    ''drawShape'' (Arr []))) ''canvasEle'' = Own 0"
    using run demo_webview_instance
    by (simp add: getCanvasInstanceById_Own)
  have b: "elements (snd (NSCanvasInterface_callCanvasReqHandler demo_webview ''canvasEle''
                            ''drawShape'' (Arr []))) =
           blank_document(0 := \<lparr>elem_id = ''canvasEle'', bitmap = ''red square''\<rparr>)"
    "objects (snd (NSCanvasInterface_callCanvasReqHandler demo_webview ''canvasEle''
                     ''drawShape'' (Arr []))) = objects demo_webview"
    using run by (simp_all add: fun_upd_def)
  show ?thesis
    using createImage_exports_canvas_of_current_instance
      [OF demo_webview_instance h demo_drawShape s, of "\<lambda>s. s" 0 demo_toDataURL "''png''" 1] a
    by (simp add: b demo_webview_canvas demo_toDataURL_def blank_document_def)
qed

section \<open>The image argument of \<open>setImage\<close>\<close>

text \<open>
  \<open>_resolveImageSourceAndFormat\<close> takes the extension of a path when the format it is
  given is falsy. With the format that \<open>setImage\<close> passes when its caller left the
  format out, the format that comes back is \<open>'png'\<close>, whatever the image.
\<close>

lemma resolve_infers_extension:
  "trim s \<noteq> [] \<Longrightarrow> fromFile m s = Inr src \<Longrightarrow> \<not> truthy format \<Longrightarrow>
   resolveImageSourceAndFormat m (Str s) format =
     Inr (src, Str (substring s (lastIndexOf s CHR ''.'' + 1) (int (length s))))"
  by (auto simp: resolveImageSourceAndFormat_def resolve_path_def resolve_object_def js_or_def
      trim_Nil)

lemma setImage_format_never_inferred:
  "resolveImageSourceAndFormat m img (if Undefined = Undefined then Str ''png'' else Undefined) =
     Inr (src, f) \<Longrightarrow> f = Str ''png''"
  by (cases img)
    (auto simp: resolveImageSourceAndFormat_def resolve_path_def resolve_object_def js_or_def
      split: if_splits sum.splits jsval.splits)

text \<open>
  C4. The claim: when \<open>setImage\<close> is given a path and no format, the format is taken
  from the path's extension. \<open>_resolveImageSourceAndFormat\<close> does so when its format is
  \<open>undefined\<close> (second part below: \<open>photo.jpg\<close> gives \<open>jpg\<close>), but \<open>setImage\<close> has
  replaced a format left out by its default \<open>'png'\<close> before it calls that method: the
  image of \<open>photo.jpg\<close> is sent as PNG.
\<close>

theorem omitted_format_is_png_for_a_path:
  "setImage demo_module (answering NoReply) ''setCanvasImage'' (Str ''photo.jpg'')
     Undefined Undefined =
   Inr \<lparr>promise = Pending, unhandled = [],
        final = [(''NSCanvasInterface._setImage'',
                  [Str ''canvasEle'', Str ''setCanvasImage'',
                   Str ''data:image/png;base64,png bytes of file photo.jpg''])]\<rparr>
   \<and> resolveImageSourceAndFormat demo_module (Str ''photo.jpg'') Undefined =
       Inr (ImageSource ''file photo.jpg'', Str ''jpg'')"
  by (simp add: setImage_def resolveImageSourceAndFormat_def resolve_path_def
      resolve_object_def demo_module_def answering_def getBase64StrFromImageSource_def
      callJSFunction_def trim_photo js_or_def lastIndexOf_def substring_def Let_def)

text \<open>
  C5. For every image argument that is not an image view, not an image source and not
  a non-empty string, \<open>setImage\<close> returns (it does not throw) a promise rejected with
  the message asking for an image, and has issued no remote call.
\<close>

theorem setImage_rejects_other_values:
  assumes "\<nexists>src. img = Image src"
    and "\<nexists>d. img = ImageSource d"
    and "\<nexists>s. img = Str s \<and> s \<noteq> []"
  shows "setImage m this fn img args format =
           Inr \<lparr>promise =
                  Rejected (Str ''Please provide Image, ImageSource object or Valid Image Path''),
                unhandled = [], final = []\<rparr>"
  using assms
  by (cases img)
    (simp_all add: setImage_def resolveImageSourceAndFormat_def resolve_path_def
      resolve_object_def trim_Nil)

text \<open>C5, witness: the plain number \<open>5\<close>.\<close>

theorem setImage_rejects_other_values_witness:
  "setImage demo_module (answering (Success Null)) ''paint'' (Num 5) Undefined Undefined =
     Inr \<lparr>promise =
            Rejected (Str ''Please provide Image, ImageSource object or Valid Image Path''),
          unhandled = [], final = []\<rparr>"
  using setImage_rejects_other_values [of "Num 5" demo_module "answering (Success Null)"
      "''paint''" Undefined Undefined]
  by simp

section \<open>The response of the web view\<close>

text \<open>
  What \<open>_callJSFunction\<close>, through which \<open>setImage\<close> and \<open>createImage\<close> issue their call,
  makes of the interface's answer: an error \<open>e\<close> rejects the promise with \<open>e\<close> unchanged;
  a falsy response resolves it with \<open>undefined\<close>; a truthy response \<open>r\<close> whose image,
  if it has one, can be decoded resolves it with an object whose \<open>data\<close> is \<open>r.data\<close>
  when that is truthy and \<open>null\<close> otherwise.
\<close>

lemma callJSFunction_settles:
  "(webViewInterface this f a = Failure e \<longrightarrow>
      promise (callJSFunction m this f a) = Rejected e)
   \<and> (webViewInterface this f a = Success r \<and> \<not> truthy r \<longrightarrow>
      promise (callJSFunction m this f a) = Fulfilled Undefined)
   \<and> (webViewInterface this f a = Success r \<and> truthy r
        \<and> get_prop r ''_strImage'' = Inr s
        \<and> (if truthy s then getImageSourceFromBase64Str m s else Inr Null) = Inr i
        \<and> get_prop r ''data'' = Inr d \<longrightarrow>
      promise (callJSFunction m this f a) =
        Fulfilled (Obj [(''image'', i), (''data'', if truthy d then d else Null)]))"
  by (simp add: callJSFunction_def js_or_def)

text \<open>
  C6. The claim: the promise of \<open>setImage\<close> resolves with the \<open>data\<close> of the response
  unless that is \<open>null\<close> or \<open>undefined\<close>, so that \<open>0\<close>, \<open>false\<close> and the empty string are
  preserved. Here \<open>setImage\<close> is called with an image source and the web view answers
  with \<open>{data: 0}\<close> (what \<open>_setImage\<close> resolves with when the handler returns that
  object): \<open>response.data || null\<close> takes \<open>0\<close> for no data, and the promise resolves with
  \<open>data: null\<close>.
\<close>

theorem zero_data_becomes_null:
  "setImage demo_module (answering (Success (Obj [(''data'', Num 0)]))) ''paint''
     (ImageSource ''px'') Undefined Undefined =
   Inr \<lparr>promise = Fulfilled (Obj [(''image'', Null), (''data'', Null)]),
        unhandled = [],
        final = [(''NSCanvasInterface._setImage'',
                  [Str ''canvasEle'', Str ''paint'',
                   Str ''data:image/png;base64,png bytes of px''])]\<rparr>"
  by (simp add: setImage_def resolveImageSourceAndFormat_def resolve_path_def
      resolve_object_def demo_module_def answering_def getBase64StrFromImageSource_def
      callJSFunction_def js_or_def)

section \<open>Decoding on the native side\<close>

text \<open>
  C7, as the code has it. \<open>_getImageSourceFromBase64Str\<close> splits the string at every
  comma and hands the second piece to \<open>fromBase64\<close>: the text between the first comma
  and the next comma or the end of the string; with no comma it hands over
  \<open>undefined\<close>. It raises no error of its own: the result is what \<open>fromBase64\<close> gives.
  For a string with exactly one comma this is the decoder of the spec.
\<close>

theorem decode_takes_second_piece:
  "getImageSourceFromBase64Str m (Str s) =
     fromBase64 m
       (if CHR '','' \<in> set s
        then Str (takeWhile (\<lambda>x. x \<noteq> CHR '','') (tl (dropWhile (\<lambda>x. x \<noteq> CHR '','') s)))
        else Undefined)
   \<and> (count_list s CHR '','' = 1 \<longrightarrow> getImageSourceFromBase64Str m (Str s) = spec_decode m s)"
proof -
  have a: "getImageSourceFromBase64Str m (Str s) =
     fromBase64 m
       (if CHR '','' \<in> set s
        then Str (takeWhile (\<lambda>x. x \<noteq> CHR '','') (tl (dropWhile (\<lambda>x. x \<noteq> CHR '','') s)))
        else Undefined)"
    by (simp only: getImageSourceFromBase64Str_def jsval.case index_split)
  have "getImageSourceFromBase64Str m (Str s) = spec_decode m s" if "count_list s CHR '','' = 1"
  proof -
    from one_separator [OF that]
    have mem: "CHR '','' \<in> set s"
      and rest: "CHR '','' \<notin> set (tl (dropWhile (\<lambda>x. x \<noteq> CHR '','') s))"
      by simp_all
    have "takeWhile (\<lambda>x. x \<noteq> CHR '','') (tl (dropWhile (\<lambda>x. x \<noteq> CHR '','') s)) =
        tl (dropWhile (\<lambda>x. x \<noteq> CHR '','') s)"
      by (rule takeWhile_eq_all_conv [THEN iffD2]) (use rest in blast)
    then show ?thesis
      by (simp only: a spec_decode_def mem if_True)
  qed
  with a show ?thesis by (intro conjI impI)
qed

text \<open>C7, witness: a data URI as the canvas produces it, with its one comma.\<close>

theorem decode_takes_second_piece_witness:
  "getImageSourceFromBase64Str demo_module (Str ''data:image/png;base64,AAAA'') =
     Inr (ImageSource ''AAAA'')
   \<and> spec_decode demo_module ''data:image/png;base64,AAAA'' = Inr (ImageSource ''AAAA'')"
  using decode_takes_second_piece [of demo_module "''data:image/png;base64,AAAA''"]
  by (simp add: demo_module_def spec_decode_def)

text \<open>
  C7, against the claim as written (which has the whole remainder after the first comma
  decoded): of \<open>a,b,c\<close> the code decodes \<open>b\<close>, the decoder of the spec \<open>b,c\<close>.
\<close>

theorem decode_stops_at_second_comma:
  "getImageSourceFromBase64Str demo_module (Str ''a,b,c'') = Inr (ImageSource ''b'')
   \<and> spec_decode demo_module ''a,b,c'' = Inr (ImageSource ''b,c'')"
  by (simp add: getImageSourceFromBase64Str_def split_def index_def demo_module_def
      spec_decode_def)

end
